theory Spec2Isabelle
  imports Complex_Main
begin

section \<open>The metric store of server-monitor (src/index.ts)\<close>

text \<open>
  A JavaScript \<open>number\<close> is modelled as a \<open>real\<close>: arithmetic is exact, and the IEEE
  values NaN, the infinities and negative zero have no counterpart. Strings are lists of
  code units; every code unit the program prints is below 256.
\<close>

subsection \<open>Constants and data types (lines 13-32)\<close>

definition RETENTION :: real where
  "RETENTION = 60 * 60 * 1000"

text \<open>\<open>type MetricData = { timestamp: number; value: number }\<close>; the field \<open>value\<close> is
  called \<open>mvalue\<close> here.\<close>

record MetricData =
  timestamp :: real
  mvalue :: real

record StoreType =
  cpu :: "MetricData list"
  ram :: "MetricData list"
  disk :: "MetricData list"
  diskGrowth :: real

text \<open>The initial value of the module variable \<open>store\<close> (lines 27-32).\<close>

definition store_init :: StoreType where
  "store_init = \<lparr>cpu = [], ram = [], disk = [], diskGrowth = 0\<rparr>"

subsection \<open>Runtime values read from the snapshot file\<close>

text \<open>
  \<open>JSON.parse\<close> yields an arbitrary JSON tree; the cast \<open>as StoreType\<close> of line 39 is
  erased at run time. An object is the list of its own properties, whose keys are
  distinct in a parsed tree.
\<close>

datatype jsval =
    JNull
  | JBool bool
  | JNum real
  | JStr string
  | JArr "jsval list"
  | JObj "(string \<times> jsval) list"










subsection \<open>The typed store as a runtime value\<close>








subsection \<open>The sample cycle\<close>

text \<open>The filter of lines 160-171 on the three series of a typed store.\<close>

definition inWindow :: "real \<Rightarrow> MetricData \<Rightarrow> bool" where
  "inWindow cutoff m = (timestamp m \<ge> cutoff)"

definition purgeStore :: "real \<Rightarrow> StoreType \<Rightarrow> StoreType" where
  "purgeStore cutoff s =
     s\<lparr>cpu := filter (inWindow cutoff) (cpu s),
       ram := filter (inWindow cutoff) (ram s),
       disk := filter (inWindow cutoff) (disk s)\<rparr>"

text \<open>
  The disk growth rate of lines 147-156, computed before the new disk sample is pushed.
\<close>

definition growthAfter :: "real \<Rightarrow> real \<Rightarrow> real \<Rightarrow> StoreType \<Rightarrow> real" where
  "growthAfter now d diskSizeGB s =
     (if length (disk s) > 0 then
        (let lastDisk = disk s ! (length (disk s) - 1);
             hoursDiff = (now - timestamp lastDisk) / (1000 * 60 * 60)
         in if hoursDiff > 0 then
              (let percentDiff = d - mvalue lastDisk
               in ((percentDiff / 100) * diskSizeGB) / hoursDiff)
            else diskGrowth s)
      else diskGrowth s)"

text \<open>
  \<open>update\<close> from line 143 to line 171, the part that changes \<open>store\<close>: \<open>now\<close> is
  \<open>Date.now()\<close>, and \<open>c\<close>, \<open>r\<close>, \<open>d\<close>, \<open>diskSizeGB\<close> are the four readings that
  \<open>Promise.all\<close> delivered.
\<close>

definition update :: "real \<Rightarrow> real \<Rightarrow> real \<Rightarrow> real \<Rightarrow> real \<Rightarrow> StoreType \<Rightarrow> StoreType" where
  "update now c r d diskSizeGB s =
     (let s1 = s\<lparr>cpu := cpu s @ [\<lparr>timestamp = now, mvalue = c\<rparr>]\<rparr>;
          s2 = s1\<lparr>ram := ram s1 @ [\<lparr>timestamp = now, mvalue = r\<rparr>]\<rparr>;
          s3 = s2\<lparr>diskGrowth := growthAfter now d diskSizeGB s2\<rparr>;
          s4 = s3\<lparr>disk := disk s3 @ [\<lparr>timestamp = now, mvalue = d\<rparr>]\<rparr>;
          cutoff = now - RETENTION
      in purgeStore cutoff s4)"






subsection \<open>Formatting (lines 207-229)\<close>

text \<open>\<open>Math.round\<close>: the nearest integer, a tie going up.\<close>

definition Math_round :: "real \<Rightarrow> int" where
  "Math_round x = \<lfloor>x + 1 / 2\<rfloor>"

definition roundRawNum :: "real \<Rightarrow> real" where
  "roundRawNum n = of_int (Math_round (n * 10)) / 10"

definition roundInt :: "real \<Rightarrow> real" where
  "roundInt n = of_int (Math_round n)"

definition digit_char :: "nat \<Rightarrow> char" where
  "digit_char d = ''0123456789'' ! d"

fun digits :: "nat \<Rightarrow> string" where
  "digits n = (if n < 10 then [digit_char n] else digits (n div 10) @ [digit_char (n mod 10)])"

declare digits.simps [simp del]

text \<open>
  The string a template literal makes of a number, for the numbers the program prints:
  integers and multiples of one tenth, in decimal notation (which JavaScript uses below
  \<open>10^21\<close>). \<open>k\<close> is the number of tenths.
\<close>

definition Number_toString :: "real \<Rightarrow> string" where
  "Number_toString x =
     (let k = \<lfloor>x * 10\<rfloor>; a = nat \<bar>k\<bar>
      in (if k < 0 then ''-'' else '''') @ digits (a div 10) @
         (if a mod 10 = 0 then '''' else ''.'' @ digits (a mod 10)))"

definition formatIntWithPercent :: "real \<Rightarrow> string" where
  "formatIntWithPercent n = Number_toString (roundInt n) @ ''%''"

text \<open>The literal of line 221: the code unit U+00B1 (plus-minus sign), then \<open>0 GB\<close>.\<close>

definition plusMinusZero :: string where
  "plusMinusZero = CHR 0xB1 # ''0 GB''"

definition formatGrowthGB :: "real \<Rightarrow> string" where
  "formatGrowthGB n =
     (if \<bar>n\<bar> < 0.05 then plusMinusZero
      else if n > 0 then ''+ '' @ Number_toString (roundRawNum n) @ '' GB''
      else ''- '' @ Number_toString (roundRawNum \<bar>n\<bar>) @ '' GB'')"

subsection \<open>Statistics (lines 231-280)\<close>

record SeriesStats =
  smax :: string
  savg :: string
  scount :: nat
  stimestamp :: real

record DiskStats =
  current :: string
  growth :: string
  dcount :: nat
  dtimestamp :: real

record Stats =
  cpuStats :: SeriesStats
  ramStats :: SeriesStats
  diskStats :: DiskStats

text \<open>\<open>values.length ? Math.max(...values) : 0\<close>.\<close>

definition maxOrZero :: "real list \<Rightarrow> real" where
  "maxOrZero vs = (case vs of [] \<Rightarrow> 0 | v # rest \<Rightarrow> foldl max v rest)"

text \<open>\<open>values.length ? values.reduce((a, b) => a + b, 0) / values.length : 0\<close>.\<close>

definition avgOrZero :: "real list \<Rightarrow> real" where
  "avgOrZero vs = (if length vs > 0 then foldl (+) 0 vs / of_nat (length vs) else 0)"

definition latestTimestamp :: "MetricData list \<Rightarrow> real" where
  "latestTimestamp ms = (if length ms > 0 then timestamp (ms ! (length ms - 1)) else 0)"

definition seriesStats :: "MetricData list \<Rightarrow> SeriesStats" where
  "seriesStats ms =
     (let vs = map mvalue ms
      in \<lparr>smax = formatIntWithPercent (maxOrZero vs),
          savg = formatIntWithPercent (avgOrZero vs),
          scount = length ms,
          stimestamp = latestTimestamp ms\<rparr>)"

text \<open>
  \<open>getStats\<close> reads the module variable \<open>store\<close>; the model returns the statistics
  together with the store the call leaves behind.
\<close>

definition getStats :: "StoreType \<Rightarrow> Stats \<times> StoreType" where
  "getStats s =
     (let diskValues = map mvalue (disk s);
          diskCurrent = (if length diskValues > 0 then diskValues ! (length diskValues - 1) else 0)
      in (\<lparr>cpuStats = seriesStats (cpu s),
           ramStats = seriesStats (ram s),
           diskStats = \<lparr>current = formatIntWithPercent diskCurrent,
                        growth = formatGrowthGB (diskGrowth s),
                        dcount = length (disk s),
                        dtimestamp = latestTimestamp (disk s)\<rparr>\<rparr>, s))"

subsection \<open>Example stores\<close>

text \<open>A store with one disk sample of 40 percent at time 0 and a growth rate of 7.\<close>

definition ex_store :: StoreType where
  "ex_store = \<lparr>cpu = [], ram = [], disk = [\<lparr>timestamp = 0, mvalue = 40\<rparr>], diskGrowth = 7\<rparr>"




section \<open>Formatting\<close>

lemma digits_nonempty: "digits n \<noteq> []"
  by (subst digits.simps) simp

lemma digits_length: "Suc 0 \<le> length (digits n)"
  using digits_nonempty [of n] by (cases "digits n") simp_all

lemma digit_char_zero: "n < 10 \<Longrightarrow> digit_char n = CHR ''0'' \<Longrightarrow> n = 0"
proof -
  assume "n < 10" and z: "digit_char n = CHR ''0''"
  then have "n \<in> {0, 1, 2, 3, 4, 5, 6, 7, 8, 9}" by auto
  with z show "n = 0" by (auto simp: digit_char_def)
qed

lemma digits_zero_iff: "digits n = ''0'' \<longleftrightarrow> n = 0"
proof
  assume d: "digits n = ''0''"
  show "n = 0"
  proof (cases "n < 10")
    case True
    with d have "digit_char n = CHR ''0''" by (subst (asm) digits.simps) simp
    with True show ?thesis by (rule digit_char_zero)
  next
    case False
    then have "digits n = digits (n div 10) @ [digit_char (n mod 10)]"
      by (subst digits.simps) simp
    then have "length (digits n) = Suc (length (digits (n div 10)))" by simp
    then show ?thesis using d digits_length [of "n div 10"] by simp
  qed
next
  assume "n = 0"
  then show "digits n = ''0''" by (simp add: digits.simps digit_char_def)
qed

lemma Number_toString_tenths_not_zero:
  assumes "1 \<le> k"
  shows "Number_toString (of_int k / 10) \<noteq> ''0''"
proof -
  let ?a = "nat \<bar>k\<bar>"
  have fl: "\<lfloor>(of_int k / 10 :: real) * 10\<rfloor> = k" by simp
  have nn: "\<not> k < 0" using assms by simp
  show ?thesis
  proof (cases "?a mod 10 = 0")
    case True
    then have "Number_toString (of_int k / 10) = digits (?a div 10)"
      using nn by (simp add: Number_toString_def fl Let_def del: of_int_abs)
    moreover have "?a div 10 \<noteq> 0" using True assms by auto
    ultimately show ?thesis by (simp add: digits_zero_iff)
  next
    case False
    then have "Number_toString (of_int k / 10) = digits (?a div 10) @ ''.'' @ digits (?a mod 10)"
      using nn by (simp add: Number_toString_def fl Let_def)
    then have "length (Number_toString (of_int k / 10)) \<ge> 2"
      using digits_length [of "?a div 10"] by simp
    then show ?thesis by auto
  qed
qed

lemma Math_round_close: "\<bar>of_int (Math_round y) - y\<bar> \<le> 1 / 2"
  unfolding Math_round_def by linarith

lemma roundRawNum_close: "\<bar>roundRawNum x - x\<bar> \<le> 0.05"
proof -
  have "\<bar>of_int (Math_round (x * 10)) - x * 10\<bar> \<le> 1 / 2" by (rule Math_round_close)
  then show ?thesis unfolding roundRawNum_def by (simp add: field_simps abs_le_iff)
qed

lemma Math_round_tenths_pos: "0.05 \<le> x \<Longrightarrow> 1 \<le> Math_round (x * 10)"
  unfolding Math_round_def by (simp add: le_floor_iff)


lemma formatGrowthGB_outside:
  "\<not> \<bar>r\<bar> < 0.05 \<Longrightarrow>
   formatGrowthGB r = (if 0 < r then ''+ '' else ''- '') @ Number_toString (roundRawNum \<bar>r\<bar>) @ '' GB''"
  by (simp add: formatGrowthGB_def)

lemma roundRawNum_tenths: "roundRawNum x * 10 \<in> \<int>"
  by (simp add: roundRawNum_def)

text \<open>
  Claim C3 (growth dead zone). The growth string is the plus-minus literal exactly when
  the absolute value of the rate is below 0.05. Outside the dead zone it is \<open>+ \<close> for a
  positive and \<open>- \<close> for a negative rate, then the absolute value rounded to one decimal
  place (a multiple of one tenth at most 0.05 away), then \<open> GB\<close>. The rate 0.049 gives
  the literal and the rate 0.05 gives \<open>+ 0.1 GB\<close>.
\<close>

theorem formatGrowthGB_dead_zone:
  "(formatGrowthGB r = plusMinusZero \<longleftrightarrow> \<bar>r\<bar> < 0.05) \<and>
   (\<not> \<bar>r\<bar> < 0.05 \<longrightarrow> 0 < r \<longrightarrow>
      formatGrowthGB r = ''+ '' @ Number_toString (roundRawNum \<bar>r\<bar>) @ '' GB'') \<and>
   (\<not> \<bar>r\<bar> < 0.05 \<longrightarrow> r < 0 \<longrightarrow>
      formatGrowthGB r = ''- '' @ Number_toString (roundRawNum \<bar>r\<bar>) @ '' GB'') \<and>
   \<bar>roundRawNum \<bar>r\<bar> - \<bar>r\<bar>\<bar> \<le> 0.05 \<and> roundRawNum \<bar>r\<bar> * 10 \<in> \<int> \<and>
   formatGrowthGB 0.049 = plusMinusZero \<and>
   formatGrowthGB 0.05 = ''+ 0.1 GB''"
proof -
  have iff: "formatGrowthGB r = plusMinusZero \<longleftrightarrow> \<bar>r\<bar> < 0.05"
  proof (cases "\<bar>r\<bar> < 0.05")
    case True
    then show ?thesis by (simp add: formatGrowthGB_def)
  next
    case False
    then show ?thesis by (simp add: formatGrowthGB_outside plusMinusZero_def)
  qed
  have pos: "\<not> \<bar>r\<bar> < 0.05 \<longrightarrow> 0 < r \<longrightarrow>
      formatGrowthGB r = ''+ '' @ Number_toString (roundRawNum \<bar>r\<bar>) @ '' GB''"
    by (simp add: formatGrowthGB_outside)
  have neg: "\<not> \<bar>r\<bar> < 0.05 \<longrightarrow> r < 0 \<longrightarrow>
      formatGrowthGB r = ''- '' @ Number_toString (roundRawNum \<bar>r\<bar>) @ '' GB''"
    by (simp add: formatGrowthGB_outside)
  have e1: "formatGrowthGB 0.049 = plusMinusZero"
    by (simp add: formatGrowthGB_def)
  have e2: "formatGrowthGB 0.05 = ''+ 0.1 GB''"
    by (simp add: formatGrowthGB_def Number_toString_def roundRawNum_def Math_round_def
        digits.simps digit_char_def)
  from iff pos neg roundRawNum_close [of "\<bar>r\<bar>"] roundRawNum_tenths [of "\<bar>r\<bar>"] e1 e2
  show ?thesis by blast
qed

theorem formatGrowthGB_dead_zone_witness:
  "\<not> \<bar>- 12.34 :: real\<bar> < 0.05 \<and> (- 12.34 :: real) < 0 \<and>
   formatGrowthGB (- 12.34) = ''- 12.3 GB'' \<and> formatGrowthGB (- 12.34) \<noteq> plusMinusZero"
proof -
  have n: "Number_toString (roundRawNum \<bar>- 12.34\<bar>) = ''12.3''"
    by (simp add: Number_toString_def roundRawNum_def Math_round_def digits.simps digit_char_def)
  show ?thesis
    using formatGrowthGB_dead_zone [of "- 12.34"] n by (simp add: plusMinusZero_def)
qed

text \<open>
  Claim C10 (no signed zero). The growth string is never \<open>+ 0 GB\<close> or \<open>- 0 GB\<close>: from
  an absolute rate of 0.05 on, the displayed magnitude is at least 0.1. What follows the
  two characters of the sign is the rendering of the rounded absolute value, so two rates
  of equal magnitude display the same digits.
\<close>

theorem growth_never_signed_zero:
  "formatGrowthGB r \<noteq> ''+ 0 GB'' \<and> formatGrowthGB r \<noteq> ''- 0 GB'' \<and>
   (0.05 \<le> \<bar>r\<bar> \<longrightarrow> 0.1 \<le> roundRawNum \<bar>r\<bar> \<and>
      drop 2 (formatGrowthGB r) = Number_toString (roundRawNum \<bar>r\<bar>) @ '' GB'') \<and>
   (\<bar>r\<bar> = \<bar>r'\<bar> \<longrightarrow> drop 2 (formatGrowthGB r) = drop 2 (formatGrowthGB r'))"
proof -
  have nz: "formatGrowthGB r \<noteq> ''+ 0 GB'' \<and> formatGrowthGB r \<noteq> ''- 0 GB''"
  proof (cases "\<bar>r\<bar> < 0.05")
    case True
    then show ?thesis by (simp add: formatGrowthGB_def plusMinusZero_def)
  next
    case False
    define N where "N = Number_toString (roundRawNum \<bar>r\<bar>)"
    from False have "1 \<le> Math_round (\<bar>r\<bar> * 10)" by (simp add: Math_round_tenths_pos)
    then have "Number_toString (roundRawNum \<bar>r\<bar>) \<noteq> ''0''"
      unfolding roundRawNum_def by (rule Number_toString_tenths_not_zero)
    then have N: "N \<noteq> ''0''" by (simp add: N_def)
    from False have "formatGrowthGB r = (if 0 < r then ''+ '' else ''- '') @ N @ '' GB''"
      unfolding N_def by (rule formatGrowthGB_outside)
    with N show ?thesis by simp
  qed
  have mag: "0.05 \<le> \<bar>r\<bar> \<longrightarrow> 0.1 \<le> roundRawNum \<bar>r\<bar> \<and>
      drop 2 (formatGrowthGB r) = Number_toString (roundRawNum \<bar>r\<bar>) @ '' GB''"
  proof
    assume a: "0.05 \<le> \<bar>r\<bar>"
    then have "1 \<le> Math_round (\<bar>r\<bar> * 10)" by (rule Math_round_tenths_pos)
    then have "(1::real) \<le> of_int (Math_round (\<bar>r\<bar> * 10))" by linarith
    then have "0.1 \<le> roundRawNum \<bar>r\<bar>" by (simp add: roundRawNum_def)
    moreover from a have "drop 2 (formatGrowthGB r) = Number_toString (roundRawNum \<bar>r\<bar>) @ '' GB''"
      by (simp add: formatGrowthGB_outside)
    ultimately show "0.1 \<le> roundRawNum \<bar>r\<bar> \<and>
      drop 2 (formatGrowthGB r) = Number_toString (roundRawNum \<bar>r\<bar>) @ '' GB''" by simp
  qed
  have same: "\<bar>r\<bar> = \<bar>r'\<bar> \<longrightarrow> drop 2 (formatGrowthGB r) = drop 2 (formatGrowthGB r')"
  proof
    assume e: "\<bar>r\<bar> = \<bar>r'\<bar>"
    show "drop 2 (formatGrowthGB r) = drop 2 (formatGrowthGB r')"
    proof (cases "\<bar>r\<bar> < 0.05")
      case True
      with e show ?thesis by (simp add: formatGrowthGB_def)
    next
      case False
      with e have "\<not> \<bar>r'\<bar> < 0.05" by simp
      with False e show ?thesis by (simp add: formatGrowthGB_outside)
    qed
  qed
  from nz mag same show ?thesis by blast
qed

theorem growth_never_signed_zero_witness:
  "(0.05 :: real) \<le> \<bar>- 0.05\<bar> \<and> \<bar>- 0.05 :: real\<bar> = \<bar>0.05\<bar> \<and> 0.1 \<le> roundRawNum 0.05 \<and>
   drop 2 (formatGrowthGB (- 0.05)) = ''0.1 GB'' \<and>
   drop 2 (formatGrowthGB (- 0.05)) = drop 2 (formatGrowthGB 0.05)"
proof -
  have n: "Number_toString (roundRawNum 0.05) = ''0.1''"
    by (simp add: Number_toString_def roundRawNum_def Math_round_def digits.simps digit_char_def)
  show ?thesis
    using growth_never_signed_zero [of "- 0.05" "0.05"] n by auto
qed

section \<open>Statistics\<close>

text \<open>
  Claim C6 (empty store). The statistics of the initial store, with no samples and a
  zero growth rate, are \<open>0%\<close> for maximum and average, count 0 and timestamp 0 for CPU
  and RAM, and \<open>0%\<close>, the plus-minus literal, count 0 and timestamp 0 for the disk.
\<close>

theorem getStats_empty_store:
  "fst (getStats store_init) =
     \<lparr>cpuStats = \<lparr>smax = ''0%'', savg = ''0%'', scount = 0, stimestamp = 0\<rparr>,
      ramStats = \<lparr>smax = ''0%'', savg = ''0%'', scount = 0, stimestamp = 0\<rparr>,
      diskStats = \<lparr>current = ''0%'', growth = CHR 0xB1 # ''0 GB'', dcount = 0, dtimestamp = 0\<rparr>\<rparr>"
  by (simp add: getStats_def store_init_def seriesStats_def formatIntWithPercent_def
      maxOrZero_def avgOrZero_def latestTimestamp_def formatGrowthGB_def plusMinusZero_def
      Number_toString_def roundInt_def Math_round_def digits.simps digit_char_def)

text \<open>
  Claim C8 (idempotence). Computing the statistics again on the store that a first call
  leaves behind gives the same statistics.
\<close>

theorem getStats_idempotent:
  "fst (getStats (snd (getStats s))) = fst (getStats s)"
  by (simp add: getStats_def Let_def)

text \<open>
  Claim C9 (pure read). \<open>getStats\<close> leaves the store as it found it: the three series
  and the growth rate are the same after the call.
\<close>

theorem getStats_pure_read:
  "snd (getStats s) = s \<and> cpu (snd (getStats s)) = cpu s \<and> ram (snd (getStats s)) = ram s \<and>
   disk (snd (getStats s)) = disk s \<and> diskGrowth (snd (getStats s)) = diskGrowth s"
  by (simp add: getStats_def Let_def)

section \<open>The disk growth rate\<close>

lemma diskGrowth_purgeStore: "diskGrowth (purgeStore c s) = diskGrowth s"
  by (simp add: purgeStore_def)

lemma diskGrowth_update:
  "diskGrowth (update now c r d diskSizeGB s) = growthAfter now d diskSizeGB s"
  by (simp add: update_def Let_def diskGrowth_purgeStore growthAfter_def)

lemma growthAfter_nonempty:
  "disk s \<noteq> [] \<Longrightarrow>
   growthAfter now d diskSizeGB s =
     (if 0 < (now - timestamp (last (disk s))) / 3600000
      then ((d - mvalue (last (disk s))) / 100) * diskSizeGB /
           ((now - timestamp (last (disk s))) / 3600000)
      else diskGrowth s)"
  by (simp add: growthAfter_def Let_def last_conv_nth)

lemma growthAfter_empty: "disk s = [] \<Longrightarrow> growthAfter now d diskSizeGB s = diskGrowth s"
  by (simp add: growthAfter_def)

text \<open>
  Claim C2 (disk growth update rule). When the disk series is non-empty and the hours
  elapsed since its last sample, \<open>(now - timestamp) / 3600000\<close>, are strictly positive,
  a cycle sets the growth rate to the percent difference over 100, times the disk
  capacity in GB, over the elapsed hours. When the series is empty or the elapsed hours
  are not positive, the growth rate stays as it was. The cycle has no failing branch.
\<close>

theorem disk_growth_update_rule:
  "(disk s \<noteq> [] \<and> 0 < (now - timestamp (last (disk s))) / 3600000 \<longrightarrow>
      diskGrowth (update now c r d diskSizeGB s) =
        ((d - mvalue (last (disk s))) / 100) * diskSizeGB /
        ((now - timestamp (last (disk s))) / 3600000)) \<and>
   (disk s = [] \<or> (now - timestamp (last (disk s))) / 3600000 \<le> 0 \<longrightarrow>
      diskGrowth (update now c r d diskSizeGB s) = diskGrowth s)"
proof (cases "disk s = []")
  case True
  then show ?thesis by (simp add: diskGrowth_update growthAfter_empty)
next
  case False
  then show ?thesis
    unfolding diskGrowth_update growthAfter_nonempty [OF False] by auto
qed



theorem disk_growth_update_rule_witness:
  "disk ex_store \<noteq> [] \<and> (0::real) < (1800000 - timestamp (last (disk ex_store))) / 3600000 \<and>
   diskGrowth (update 1800000 10 20 41 200 ex_store) = 4 \<and>
   (0 - timestamp (last (disk ex_store))) / 3600000 \<le> 0 \<and>
   diskGrowth (update 0 10 20 41 200 ex_store) = 7 \<and>
   diskGrowth (update 1800000 10 20 41 200 store_init) = 0"
  using disk_growth_update_rule [where s = ex_store and now = 1800000 and c = 10 and r = 20
      and d = 41 and diskSizeGB = 200]
    disk_growth_update_rule [where s = ex_store and now = 0 and c = 10 and r = 20
      and d = 41 and diskSizeGB = 200]
    disk_growth_update_rule [where s = store_init and now = 1800000 and c = 10 and r = 20
      and d = 41 and diskSizeGB = 200]
  by (simp add: ex_store_def store_init_def)



section \<open>Retention lemmas\<close>











section \<open>Saving and loading a typed store\<close>








section \<open>When the load throws\<close>










section \<open>The retention invariant\<close>



section \<open>Round trip and fallback\<close>







end
